theory Spec2Isabelle
  imports Complex_Main
begin

section \<open>The mining statistics service of the frontend\<close>

text \<open>
  A shallow embedding of \<^verbatim>\<open>frontend/src/app/services/mining.service.ts\<close>: the class
  \<^verbatim>\<open>MiningService\<close> with its interval cache, the derivation \<^verbatim>\<open>generateMiningStats\<close>,
  the unit selection \<^verbatim>\<open>getMiningUnits\<close> and the timespan resolver
  \<^verbatim>\<open>getDefaultTimespan\<close>.

  Modelling decisions, stated once:
  \<^item> A JavaScript number is a \<open>jsnum\<close>: a finite value with exact rational arithmetic, or
    one of \<open>Infinity\<close>, \<open>-Infinity\<close>, \<open>NaN\<close>. The arithmetic does not round, a finite
    result never overflows, and there is one zero. The values computed below at
    concrete inputs are the same in doubles, and the bounds proved below hold of the
    rounded values as well.
  \<^item> A property that may be \<^verbatim>\<open>undefined\<close> or \<^verbatim>\<open>null\<close> is an \<open>option\<close>.
  \<^item> The mutable fields of the service are a record that every operation receives and
    returns; the clock, the current network and the outcome of the HTTP request are
    arguments. A request and the arrival of its outcome are separate events of a
    sequence.
\<close>

subsection \<open>JavaScript numbers\<close>

datatype jsnum = Fin rat | PosInf | NegInf | NaN

text \<open>Addition, multiplication and division of numbers, with the non-finite cases of the language.\<close>

fun jsadd :: "jsnum \<Rightarrow> jsnum \<Rightarrow> jsnum" where
  "jsadd (Fin a) (Fin b) = Fin (a + b)"
| "jsadd NaN y = NaN"
| "jsadd x NaN = NaN"
| "jsadd (Fin a) y = y"
| "jsadd x (Fin b) = x"
| "jsadd x y = (if x = y then x else NaN)"

fun jsmul :: "jsnum \<Rightarrow> jsnum \<Rightarrow> jsnum" where
  "jsmul (Fin a) (Fin b) = Fin (a * b)"
| "jsmul NaN y = NaN"
| "jsmul x NaN = NaN"
| "jsmul (Fin a) y = (if a = 0 then NaN else if (0 < a) = (y = PosInf) then PosInf else NegInf)"
| "jsmul x (Fin b) = (if b = 0 then NaN else if (0 < b) = (x = PosInf) then PosInf else NegInf)"
| "jsmul x y = (if x = y then PosInf else NegInf)"

fun jsdiv :: "jsnum \<Rightarrow> jsnum \<Rightarrow> jsnum" where
  "jsdiv (Fin a) (Fin b) =
     (if b = 0 then (if a = 0 then NaN else if 0 < a then PosInf else NegInf)
      else Fin (a / b))"
| "jsdiv NaN y = NaN"
| "jsdiv x NaN = NaN"
| "jsdiv (Fin a) y = Fin 0"
| "jsdiv x (Fin b) = (if (0 \<le> b) = (x = PosInf) then PosInf else NegInf)"
| "jsdiv x y = NaN"

text \<open>The comparison \<^verbatim>\<open>x > y\<close>: false as soon as one side is \<open>NaN\<close>.\<close>

fun jsgt :: "jsnum \<Rightarrow> jsnum \<Rightarrow> bool" where
  "jsgt (Fin a) (Fin b) = (b < a)"
| "jsgt NaN y = False"
| "jsgt x NaN = False"
| "jsgt PosInf y = (y \<noteq> PosInf)"
| "jsgt x NegInf = (x \<noteq> NegInf)"
| "jsgt x y = False"

text \<open>
  \<^verbatim>\<open>ToNumber\<close> of a property that may be \<^verbatim>\<open>undefined\<close>. The source applies it only
  in the comparison \<^verbatim>\<open>> 0\<close>, which is false for \<^verbatim>\<open>null\<close> as well, and in divisions
  guarded by that comparison.
\<close>

definition toNumber :: "jsnum option \<Rightarrow> jsnum" where
  "toNumber v = (case v of None \<Rightarrow> NaN | Some x \<Rightarrow> x)"

text \<open>\<^verbatim>\<open>v || d\<close> on a number: the falsy numbers are \<open>0\<close> and \<open>NaN\<close>, and so is \<^verbatim>\<open>undefined\<close>.\<close>

definition jsor :: "jsnum option \<Rightarrow> jsnum \<Rightarrow> jsnum" where
  "jsor v d = (case v of None \<Rightarrow> d | Some x \<Rightarrow> if x = Fin 0 \<or> x = NaN then d else x)"

subsection \<open>Unit selection\<close>

record MiningUnits =
  hashrateDivider :: jsnum
  hashrateUnit :: string

definition powerTable :: "(nat \<times> string) list" where
  "powerTable =
     [(0, ''H/s''), (3, ''kH/s''), (6, ''MH/s''), (9, ''GH/s''),
      (12, ''TH/s''), (15, ''PH/s''), (18, ''EH/s'')]"

text \<open>
  \<^verbatim>\<open>this.stateService.network\<close> is the argument. The two powers that can be selected are
  keys of the table, so the lookup never yields \<^verbatim>\<open>undefined\<close>.
\<close>

definition getMiningUnits :: "string \<Rightarrow> MiningUnits" where
  "getMiningUnits network =
     (let selectedPower = (if network = ''testnet'' \<or> network = ''testnet4'' then 12 else 18 :: nat)
      in \<lparr> hashrateDivider = Fin (10 ^ selectedPower),
           hashrateUnit = (case map_of powerTable selectedPower of Some u \<Rightarrow> u | None \<Rightarrow> []) \<rparr>)"

subsection \<open>Default timespan\<close>

text \<open>\<^verbatim>\<open>Array.prototype.indexOf\<close>: the first position of the element, \<open>-1\<close> when it is absent.\<close>

fun indexOfFrom :: "int \<Rightarrow> 'a list \<Rightarrow> 'a \<Rightarrow> int" where
  "indexOfFrom i [] x = -1"
| "indexOfFrom i (y # ys) x = (if y = x then i else indexOfFrom (i + 1) ys x)"

definition indexOf :: "'a list \<Rightarrow> 'a \<Rightarrow> int" where
  "indexOf xs x = indexOfFrom 0 xs x"

definition timespans :: "string list" where
  "timespans = [''24h'', ''3d'', ''1w'', ''1m'', ''3m'', ''6m'', ''1y'', ''2y'', ''3y'', ''all'']"

text \<open>
  The first argument is what \<^verbatim>\<open>storageService.getValue('miningWindowPreference')\<close>
  returns; \<open>None\<close> is \<^verbatim>\<open>null\<close> or \<^verbatim>\<open>undefined\<close>, which \<^verbatim>\<open>??\<close> replaces. The
  parameter \<^verbatim>\<open>min\<close> of the source is \<open>minimum\<close> here.
\<close>

definition getDefaultTimespan :: "string option \<Rightarrow> string \<Rightarrow> string" where
  "getDefaultTimespan stored minimum =
     (let preference = (case stored of None \<Rightarrow> ''1w'' | Some v \<Rightarrow> v)
      in if indexOf timespans preference < indexOf timespans minimum then minimum else preference)"

text \<open>
  The rank of a token as the specification describes it: its position in the fixed list,
  written out as a table, with \<open>-1\<close> for a string that is not in the list.
\<close>

definition timespan_rank_spec :: "string \<Rightarrow> int" where
  "timespan_rank_spec t =
     (if t = ''24h'' then 0 else if t = ''3d'' then 1 else if t = ''1w'' then 2
      else if t = ''1m'' then 3 else if t = ''3m'' then 4 else if t = ''6m'' then 5
      else if t = ''1y'' then 6 else if t = ''2y'' then 7 else if t = ''3y'' then 8
      else if t = ''all'' then 9 else -1)"

subsection \<open>Numbers and strings\<close>

text \<open>
  A string is a list of characters with codes below 256. That is what a header value
  is, which the browser decodes byte by byte, and what \<^verbatim>\<open>toFixed\<close> prints; the other
  strings of the service are only compared. The three library functions of the language
  that the service calls are written out from the language definition. Of the white
  space of the language, the characters with codes below 256 are tab, line feed,
  vertical tab, form feed, carriage return, space and the no-break space \<open>U+00A0\<close>.
\<close>

definition digitChar :: "nat \<Rightarrow> char" where
  "digitChar d = ''0123456789'' ! d"

fun showNat :: "nat \<Rightarrow> string" where
  "showNat n = (if n < 10 then [digitChar n] else showNat (n div 10) @ [digitChar (n mod 10)])"

declare showNat.simps [simp del]

definition isDigit :: "char \<Rightarrow> bool" where
  "isDigit c = (48 \<le> (of_char c :: nat) \<and> (of_char c :: nat) \<le> 57)"

definition digitVal :: "char \<Rightarrow> nat" where
  "digitVal c = of_char c - 48"

definition digitsVal :: "string \<Rightarrow> nat" where
  "digitsVal ds = foldl (\<lambda>acc c. 10 * acc + digitVal c) 0 ds"

definition isWhiteSpace :: "char \<Rightarrow> bool" where
  "isWhiteSpace c = ((of_char c :: nat) \<in> set [9, 10, 11, 12, 13, 32, 160])"

definition splitSign :: "string \<Rightarrow> bool \<times> string" where
  "splitSign s =
     (case s of
        [] \<Rightarrow> (False, s)
      | c # r \<Rightarrow> if c = CHR ''-'' then (True, r) else if c = CHR ''+'' then (False, r) else (False, s))"

text \<open>
  \<^verbatim>\<open>Number.prototype.toFixed(f)\<close>. A non-finite number prints by name. A finite one of
  magnitude below \<open>10^21\<close> prints the integer \<open>n\<close> nearest to \<open>x * 10^f\<close> (the larger one
  on a tie), padded with zeros to \<open>f + 1\<close> digits, with a point before its last \<open>f\<close>
  digits. From \<open>10^21\<close> on the language prints \<^verbatim>\<open>ToString(x)\<close>, the shortest digits
  that read back as the same double: that depends on the binary representation, so it is
  the parameter \<open>numberToString\<close>.
\<close>

definition padZeros :: "nat \<Rightarrow> string \<Rightarrow> string" where
  "padZeros f m =
     (if f \<noteq> 0 \<and> length m \<le> f then replicate (f + 1 - length m) (CHR ''0'') @ m else m)"

definition toFixed :: "(rat \<Rightarrow> string) \<Rightarrow> jsnum \<Rightarrow> nat \<Rightarrow> string" where
  "toFixed numberToString x f =
     (case x of
        NaN \<Rightarrow> ''NaN''
      | PosInf \<Rightarrow> ''Infinity''
      | NegInf \<Rightarrow> ''-Infinity''
      | Fin r \<Rightarrow>
          (let s = (if r < 0 then ''-'' else []);
               a = \<bar>r\<bar>
           in if 10 ^ 21 \<le> a then s @ numberToString a
              else
                (let n = nat \<lfloor>a * 10 ^ f + 1 / 2\<rfloor>;
                     m = padZeros f (showNat n);
                     k = length m
                 in s @ (if f \<noteq> 0 then take (k - f) m @ ''.'' @ drop (k - f) m else m))))"

text \<open>
  A value for the parameter in the examples of this theory, none of which formats a
  number of magnitude \<open>10^21\<close> or more.
\<close>

definition exampleToString :: "rat \<Rightarrow> string" where
  "exampleToString a = ''1e+21''"

text \<open>The exponent part of a decimal literal: \<open>e\<close> or \<open>E\<close>, a sign, digits; \<open>0\<close> when there is none.\<close>

definition exponentPart :: "string \<Rightarrow> int" where
  "exponentPart s =
     (case s of
        [] \<Rightarrow> 0
      | c # r \<Rightarrow>
          if c = CHR ''e'' \<or> c = CHR ''E''
          then (let (neg, t) = splitSign r; ds = takeWhile isDigit t
                in if ds = [] then 0
                   else if neg then - int (digitsVal ds) else int (digitsVal ds))
          else 0)"

text \<open>
  \<^verbatim>\<open>parseFloat\<close>: leading white space is dropped, the longest prefix that is a decimal
  literal is read, and \<open>NaN\<close> is the result when there is none.
\<close>

definition parseFloat :: "string \<Rightarrow> jsnum" where
  "parseFloat str =
     (let (neg, u) = splitSign (dropWhile isWhiteSpace str)
      in if take 8 u = ''Infinity'' then (if neg then NegInf else PosInf)
         else
           (let ip = takeWhile isDigit u;
                r1 = dropWhile isDigit u;
                fp = (case r1 of [] \<Rightarrow> [] | c # r \<Rightarrow> if c = CHR ''.'' then takeWhile isDigit r else []);
                r2 = (case r1 of [] \<Rightarrow> [] | c # r \<Rightarrow> if c = CHR ''.'' then dropWhile isDigit r else r1)
            in if ip = [] \<and> fp = [] then NaN
               else
                 (let v = rat_of_nat (digitsVal (ip @ fp)) / 10 ^ length fp * 10 powi exponentPart r2
                  in Fin (if neg then - v else v))))"

text \<open>
  The number value of a non-negative integer: the integer itself up to \<open>2^53\<close>; beyond
  that the nearest integer of 53 significant bits, the even one on a tie, and \<open>Infinity\<close>
  when that reaches \<open>2^1024\<close>. (For a numeral of more than 20 significant digits the
  language lets an implementation replace the digits after the twentieth by zeros
  first; this model keeps them.)
\<close>

fun bitLength :: "nat \<Rightarrow> nat" where
  "bitLength n = (if n = 0 then 0 else Suc (bitLength (n div 2)))"

declare bitLength.simps [simp del]

definition numberOfInteger :: "nat \<Rightarrow> jsnum" where
  "numberOfInteger n =
     (if n \<le> 2 ^ 53 then Fin (rat_of_nat n)
      else
        (let e = bitLength n - 53;
             q = n div 2 ^ e;
             r = n mod 2 ^ e;
             q' = (if 2 ^ e < 2 * r \<or> (2 * r = 2 ^ e \<and> odd q) then q + 1 else q)
         in if 2 ^ 1024 \<le> q' * 2 ^ e then PosInf else Fin (rat_of_nat (q' * 2 ^ e))))"

fun jsneg :: "jsnum \<Rightarrow> jsnum" where
  "jsneg (Fin a) = Fin (- a)"
| "jsneg PosInf = NegInf"
| "jsneg NegInf = PosInf"
| "jsneg NaN = NaN"

text \<open>
  \<^verbatim>\<open>parseInt(str, 10)\<close>: white space, a sign, then the longest run of decimal digits, read
  as an integer and turned into a number.
\<close>

definition parseInt10 :: "string \<Rightarrow> jsnum" where
  "parseInt10 str =
     (let (neg, u) = splitSign (dropWhile isWhiteSpace str);
          ds = takeWhile isDigit u
      in if ds = [] then NaN
         else if neg then jsneg (numberOfInteger (digitsVal ds)) else numberOfInteger (digitsVal ds))"

text \<open>\<^verbatim>\<open>v || d\<close> on a string that may be \<^verbatim>\<open>null\<close>: the empty string is falsy.\<close>

definition strOr :: "string option \<Rightarrow> string \<Rightarrow> string" where
  "strOr v d = (case v of None \<Rightarrow> d | Some s \<Rightarrow> if s = [] then d else s)"

subsection \<open>The data of the service\<close>

text \<open>
  Modelled from the spec: the interfaces \<^verbatim>\<open>SinglePoolStats\<close> and \<^verbatim>\<open>PoolsStats\<close>, which the
  source imports from \<^verbatim>\<open>node-api.interface\<close>. A raw pool record carries the pool's
  identifiers, its block count and its empty-block count and none of the derived
  properties, so the spread \<^verbatim>\<open>...poolStat\<close> at the end of the derived object overrides
  nothing. A payload is the total block count, the three hashrate estimates and the
  pools in order. The counts that the source defaults with \<^verbatim>\<open>|| 0\<close> may be missing.
\<close>

record RawPoolStat =
  poolId :: string
  name :: "string option"
  slug :: "string option"
  blockCount :: jsnum
  emptyBlocks :: "jsnum option"

record DerivedPoolStat = RawPoolStat +
  share :: jsnum
  lastEstimatedHashrate :: jsnum
  lastEstimatedHashrate3d :: jsnum
  lastEstimatedHashrate1w :: jsnum
  emptyBlockRatio :: string
  logo :: string

record PoolsStats =
  blockCount :: "jsnum option"
  lastEstimatedHashrate :: "jsnum option"
  lastEstimatedHashrate3d :: "jsnum option"
  lastEstimatedHashrate1w :: "jsnum option"
  pools :: "RawPoolStat list"

text \<open>The response of \<^verbatim>\<open>listPools$\<close>: the body and \<^verbatim>\<open>headers.get\<close>.\<close>

record HttpResponse =
  body :: PoolsStats
  headers :: "string \<rightharpoonup> string"

record MiningStats =
  lastEstimatedHashrate :: jsnum
  lastEstimatedHashrate3d :: jsnum
  lastEstimatedHashrate1w :: jsnum
  blockCount :: jsnum
  totalEmptyBlock :: jsnum
  totalEmptyBlockRatio :: string
  pools :: "DerivedPoolStat list"
  miningUnits :: MiningUnits
  totalBlockCount :: jsnum

record CacheEntry =
  lastUpdated :: int
  data :: MiningStats

record MiningService =
  cache :: "string \<rightharpoonup> CacheEntry"
  poolsData :: "RawPoolStat list"

subsection \<open>Derivation of the statistics\<close>

text \<open>The constant \<^verbatim>\<open>safeBlockCount\<close> of \<^verbatim>\<open>generateMiningStats\<close>, as a function of the payload.\<close>

definition safeBlockCount :: "PoolsStats \<Rightarrow> jsnum" where
  "safeBlockCount stats =
     (if jsgt (toNumber (PoolsStats.blockCount stats)) (Fin 0)
      then toNumber (PoolsStats.blockCount stats) else Fin 1)"

text \<open>
  The arrow function that \<^verbatim>\<open>generateMiningStats\<close> maps over \<^verbatim>\<open>stats.pools\<close>. Its
  arguments besides \<open>poolStat\<close> are the variables of the enclosing function that it
  reads; a variable of the source whose name is also a field of a record is primed here.
  A missing \<^verbatim>\<open>slug\<close> prints as \<^verbatim>\<open>undefined\<close> in the concatenation.
\<close>

definition derivePoolStat ::
  "(rat \<Rightarrow> string) \<Rightarrow> PoolsStats \<Rightarrow> jsnum \<Rightarrow> jsnum \<Rightarrow> RawPoolStat \<Rightarrow> DerivedPoolStat" where
  "derivePoolStat numberToString stats safeBlockCount' hashrateDivider' poolStat =
     RawPoolStat.extend poolStat
       (DerivedPoolStat.fields
          (if jsgt (toNumber (PoolsStats.blockCount stats)) (Fin 0)
           then parseFloat (toFixed numberToString
                  (jsmul (jsdiv (RawPoolStat.blockCount poolStat) (toNumber (PoolsStats.blockCount stats)))
                     (Fin 100)) 2)
           else Fin 0)
          (jsdiv (jsmul (jsdiv (RawPoolStat.blockCount poolStat) safeBlockCount')
                    (jsor (PoolsStats.lastEstimatedHashrate stats) (Fin 0))) hashrateDivider')
          (jsdiv (jsmul (jsdiv (RawPoolStat.blockCount poolStat) safeBlockCount')
                    (jsor (PoolsStats.lastEstimatedHashrate3d stats) (Fin 0))) hashrateDivider')
          (jsdiv (jsmul (jsdiv (RawPoolStat.blockCount poolStat) safeBlockCount')
                    (jsor (PoolsStats.lastEstimatedHashrate1w stats) (Fin 0))) hashrateDivider')
          (if jsgt (RawPoolStat.blockCount poolStat) (Fin 0)
           then toFixed numberToString
                  (jsmul (jsdiv (jsor (emptyBlocks poolStat) (Fin 0)) (RawPoolStat.blockCount poolStat))
                     (Fin 100)) 2
           else ''0.00'')
          (''/resources/mining-pools/''
             @ (case slug poolStat of None \<Rightarrow> ''undefined'' | Some s \<Rightarrow> s)
             @ (if slug poolStat = Some ''unknown'' then ''.png'' else ''.svg'')))"

text \<open>
  \<^verbatim>\<open>generateMiningStats(response)\<close>, with the current network as an argument.
  \<^verbatim>\<open>Object.values\<close> of the pools array is the array itself, in order.
\<close>

definition generateMiningStats :: "(rat \<Rightarrow> string) \<Rightarrow> string \<Rightarrow> HttpResponse \<Rightarrow> MiningStats" where
  "generateMiningStats numberToString network response =
     (let stats = body response;
          miningUnits' = getMiningUnits network;
          hashrateDivider' = hashrateDivider miningUnits';
          totalEmptyBlock' =
            foldl (\<lambda>prev cur. jsadd prev (jsor (emptyBlocks cur) (Fin 0))) (Fin 0) (PoolsStats.pools stats);
          totalEmptyBlockRatio' =
            (if jsgt (toNumber (PoolsStats.blockCount stats)) (Fin 0)
             then toFixed numberToString
                    (jsmul (jsdiv totalEmptyBlock' (toNumber (PoolsStats.blockCount stats))) (Fin 100)) 2
             else ''0.00'');
          poolsStats =
            map (derivePoolStat numberToString stats (safeBlockCount stats) hashrateDivider') (PoolsStats.pools stats)
      in \<lparr> lastEstimatedHashrate = jsdiv (jsor (PoolsStats.lastEstimatedHashrate stats) (Fin 0)) hashrateDivider',
           lastEstimatedHashrate3d = jsdiv (jsor (PoolsStats.lastEstimatedHashrate3d stats) (Fin 0)) hashrateDivider',
           lastEstimatedHashrate1w = jsdiv (jsor (PoolsStats.lastEstimatedHashrate1w stats) (Fin 0)) hashrateDivider',
           blockCount = jsor (PoolsStats.blockCount stats) (Fin 0),
           totalEmptyBlock = totalEmptyBlock',
           totalEmptyBlockRatio = totalEmptyBlockRatio',
           pools = poolsStats,
           miningUnits = miningUnits',
           totalBlockCount = parseInt10 (strOr (headers response ''x-total-count'') ''0'') \<rparr>)"

subsection \<open>The cached service\<close>

text \<open>The object that \<^verbatim>\<open>catchError\<close> in \<^verbatim>\<open>getMiningStats\<close> substitutes for a failed request.\<close>

definition emptyStats :: "string \<Rightarrow> MiningStats" where
  "emptyStats network =
     \<lparr> lastEstimatedHashrate = Fin 0,
       lastEstimatedHashrate3d = Fin 0,
       lastEstimatedHashrate1w = Fin 0,
       blockCount = Fin 0,
       totalEmptyBlock = Fin 0,
       totalEmptyBlockRatio = ''0.00'',
       pools = [],
       miningUnits = getMiningUnits network,
       totalBlockCount = Fin 0 \<rparr>"

text \<open>
  What an observable of the service does when it emits: the service afterwards, the
  emitted value, and whether the value came from a request to the backend.
\<close>

record 'a Emission =
  service :: MiningService
  emitted :: 'a
  fetched :: bool

text \<open>A failed request: the error the observable of \<^verbatim>\<open>listPools$\<close> raises.\<close>

datatype HttpError = HttpError nat

text \<open>
  The test at the head of \<^verbatim>\<open>getMiningStats(interval)\<close> and the value of \<^verbatim>\<open>of(...)\<close> when
  it succeeds: the data of an entry that is present and was updated after
  \<open>now - 5 * 60000\<close>, where \<open>now\<close> is \<^verbatim>\<open>Date.now()\<close> when the method is called. The cache
  is an object used as a dictionary from interval labels to entries. \<open>None\<close> means that
  the method returns the pipe on \<^verbatim>\<open>listPools$(interval)\<close> instead.
\<close>

definition cachedMiningStats :: "MiningService \<Rightarrow> string \<Rightarrow> int \<Rightarrow> MiningStats option" where
  "cachedMiningStats this interval now =
     (case cache this interval of
        None \<Rightarrow> None
      | Some entry \<Rightarrow> if now - 5 * 60000 < lastUpdated entry then Some (data entry) else None)"

text \<open>
  The pipe of \<^verbatim>\<open>getMiningStats\<close>, run when the outcome of the request arrives, in the
  order of the source: \<^verbatim>\<open>map\<close> derives the statistics from a response, \<^verbatim>\<open>catchError\<close>
  replaces an error by the empty statistics, and \<^verbatim>\<open>tap\<close> then stores the value that comes
  out of the two. \<open>this\<close> is the service, \<open>network\<close> the network and \<open>arrival\<close> the value of
  \<^verbatim>\<open>Date.now()\<close> at the moment of the arrival, which is later than the call and may come
  after other calls and events. \<open>result\<close> is the outcome of the request. A response is
  taken to be well formed, so that the derivation itself raises nothing for
  \<^verbatim>\<open>catchError\<close> to catch.
\<close>

definition fetchMiningStats ::
  "(rat \<Rightarrow> string) \<Rightarrow> string \<Rightarrow> MiningService \<Rightarrow> string
     \<Rightarrow> HttpError + HttpResponse \<Rightarrow> int \<Rightarrow> MiningStats Emission" where
  "fetchMiningStats numberToString network this interval result arrival =
     (let stats =
            (case result of
               Inr response \<Rightarrow> generateMiningStats numberToString network response
             | Inl err \<Rightarrow> emptyStats network)
      in \<lparr> service = this \<lparr> cache := (cache this)(interval \<mapsto> \<lparr> lastUpdated = arrival, data = stats \<rparr>) \<rparr>,
           emitted = stats,
           fetched = True \<rparr>)"

text \<open>
  A call of \<^verbatim>\<open>getMiningStats(interval)\<close> that is alone: the observable is subscribed to
  once, and the outcome of its request, if it makes one, arrives before anything else
  happens to the service. Calls that overlap are sequences of events, further down.
\<close>

definition getMiningStats ::
  "(rat \<Rightarrow> string) \<Rightarrow> string \<Rightarrow> MiningService \<Rightarrow> string \<Rightarrow> int
     \<Rightarrow> HttpError + HttpResponse \<Rightarrow> int \<Rightarrow> MiningStats Emission" where
  "getMiningStats numberToString network this interval now result arrival =
     (case cachedMiningStats this interval now of
        Some stats \<Rightarrow> \<lparr> service = this, emitted = stats, fetched = False \<rparr>
      | None \<Rightarrow> fetchMiningStats numberToString network this interval result arrival)"

text \<open>
  The pipe of \<^verbatim>\<open>getPools()\<close>, run when the outcome of the request for the pool list
  arrives: \<^verbatim>\<open>map\<close> stores the body of a response, and \<^verbatim>\<open>catchError\<close>, which comes after
  it, turns an error into the empty list.
\<close>

definition fetchPools :: "MiningService \<Rightarrow> HttpError + RawPoolStat list \<Rightarrow> RawPoolStat list Emission" where
  "fetchPools this result =
     (case result of
        Inr responseBody \<Rightarrow>
          \<lparr> service = this \<lparr> poolsData := responseBody \<rparr>, emitted = responseBody, fetched = True \<rparr>
      | Inl err \<Rightarrow> \<lparr> service = this, emitted = [], fetched = True \<rparr>)"

text \<open>A call of \<^verbatim>\<open>getPools()\<close> that is alone: the pool list is requested when \<^verbatim>\<open>poolsData\<close> is empty.\<close>

definition getPools :: "MiningService \<Rightarrow> HttpError + RawPoolStat list \<Rightarrow> RawPoolStat list Emission" where
  "getPools this result =
     (if poolsData this \<noteq> []
      then \<lparr> service = this, emitted = poolsData this, fetched = False \<rparr>
      else fetchPools this result)"

definition clearCache :: "MiningService \<Rightarrow> MiningService" where
  "clearCache this = this \<lparr> cache := Map.empty, poolsData := [] \<rparr>"

text \<open>The subscription made in the constructor: every event of \<^verbatim>\<open>networkChanged$\<close> clears the caches.\<close>

definition networkChanged :: "string \<Rightarrow> MiningService \<Rightarrow> MiningService" where
  "networkChanged network this = clearCache this"

text \<open>The service as the constructor leaves it.\<close>

definition newMiningService :: MiningService where
  "newMiningService = \<lparr> cache = Map.empty, poolsData = [] \<rparr>"

subsection \<open>Calls, arrivals and network changes in sequence\<close>

text \<open>
  The service runs on one event loop, so what happens to it is a sequence of events: a
  call of \<^verbatim>\<open>getMiningStats\<close> with its interval and \<^verbatim>\<open>Date.now()\<close>, subscribed to at once;
  the arrival of the outcome of a request for an interval, with \<^verbatim>\<open>Date.now()\<close> at that
  moment; a call of \<^verbatim>\<open>getPools\<close>; the arrival of the outcome of a request for the pool
  list; and an event of the network-change notifier with the new network. A request
  and the arrival of its outcome are two events, and others may lie between them.
\<close>

datatype event =
    GetMiningStats string int
  | ListPoolsArrives string "HttpError + HttpResponse" int
  | GetPools
  | PoolListArrives "HttpError + RawPoolStat list"
  | NetworkChanges string

text \<open>What an event lets the caller observe.\<close>

datatype observation =
    StatsEmitted MiningStats
  | StatsRequested string
  | PoolsEmitted "RawPoolStat list"
  | PoolsRequested
  | CachesCleared

text \<open>The service together with \<^verbatim>\<open>stateService.network\<close>.\<close>

record World =
  svc :: MiningService
  currentNetwork :: string

definition newWorld :: World where
  "newWorld = \<lparr> svc = newMiningService, currentNetwork = [] \<rparr>"

fun step :: "(rat \<Rightarrow> string) \<Rightarrow> World \<Rightarrow> event \<Rightarrow> World \<times> observation" where
  "step numberToString w (GetMiningStats interval now) =
     (case cachedMiningStats (svc w) interval now of
        Some stats \<Rightarrow> (w, StatsEmitted stats)
      | None \<Rightarrow> (w, StatsRequested interval))"
| "step numberToString w (ListPoolsArrives interval result arrival) =
     (let e = fetchMiningStats numberToString (currentNetwork w) (svc w) interval result arrival
      in (w \<lparr> svc := service e \<rparr>, StatsEmitted (emitted e)))"
| "step numberToString w GetPools =
     (if poolsData (svc w) \<noteq> [] then (w, PoolsEmitted (poolsData (svc w))) else (w, PoolsRequested))"
| "step numberToString w (PoolListArrives result) =
     (let e = fetchPools (svc w) result
      in (w \<lparr> svc := service e \<rparr>, PoolsEmitted (emitted e)))"
| "step numberToString w (NetworkChanges network) =
     (w \<lparr> svc := networkChanged network (svc w), currentNetwork := network \<rparr>, CachesCleared)"

fun worldAfter :: "(rat \<Rightarrow> string) \<Rightarrow> World \<Rightarrow> event list \<Rightarrow> World" where
  "worldAfter numberToString w [] = w"
| "worldAfter numberToString w (e # es) = worldAfter numberToString (fst (step numberToString w e)) es"

fun observations :: "(rat \<Rightarrow> string) \<Rightarrow> World \<Rightarrow> event list \<Rightarrow> observation list" where
  "observations numberToString w [] = []"
| "observations numberToString w (e # es) =
     snd (step numberToString w e) # observations numberToString (fst (step numberToString w e)) es"

text \<open>Conditions on the events between two calls for an interval.\<close>

fun arrivesFor :: "string \<Rightarrow> event \<Rightarrow> bool" where
  "arrivesFor interval (ListPoolsArrives i result arrival) = (i = interval)"
| "arrivesFor interval e = False"


definition noArrivalFor :: "string \<Rightarrow> event list \<Rightarrow> bool" where
  "noArrivalFor interval es = list_all (\<lambda>e. \<not> arrivesFor interval e) es"


subsection \<open>Example payloads\<close>

text \<open>
  The payload of the end-to-end example of the specification: 100 blocks, an estimate of
  \<open>5e20\<close> hashes per second, pool A with 60 blocks of which one is empty, pool B with
  40 blocks and none empty. It has no \<^verbatim>\<open>x-total-count\<close> header.
\<close>

definition examplePayload :: HttpResponse where
  "examplePayload =
     \<lparr> body =
         \<lparr> PoolsStats.blockCount = Some (Fin 100),
           lastEstimatedHashrate = Some (Fin (5 * 10 ^ 20)),
           lastEstimatedHashrate3d = None,
           lastEstimatedHashrate1w = None,
           pools =
             [\<lparr> poolId = ''A'', name = None, slug = None, blockCount = Fin 60, emptyBlocks = Some (Fin 1) \<rparr>,
              \<lparr> poolId = ''B'', name = None, slug = None, blockCount = Fin 40, emptyBlocks = Some (Fin 0) \<rparr>] \<rparr>,
       headers = Map.empty \<rparr>"

text \<open>A payload whose only pool reports more blocks than the total, and more empty blocks than blocks.\<close>

definition inconsistentPayload :: HttpResponse where
  "inconsistentPayload =
     \<lparr> body =
         \<lparr> PoolsStats.blockCount = Some (Fin 100),
           lastEstimatedHashrate = None,
           lastEstimatedHashrate3d = None,
           lastEstimatedHashrate1w = None,
           pools =
             [\<lparr> poolId = ''A'', name = None, slug = Some ''unknown'', blockCount = Fin 200,
                emptyBlocks = Some (Fin 600) \<rparr>] \<rparr>,
       headers = Map.empty \<rparr>"

text \<open>A payload with a total of zero blocks, and a header that is not a number.\<close>

definition zeroPayload :: HttpResponse where
  "zeroPayload =
     \<lparr> body =
         \<lparr> PoolsStats.blockCount = Some (Fin 0),
           lastEstimatedHashrate = Some (Fin (3 * 10 ^ 18)),
           lastEstimatedHashrate3d = None,
           lastEstimatedHashrate1w = None,
           pools =
             [\<lparr> poolId = ''A'', name = None, slug = None, blockCount = Fin 0, emptyBlocks = None \<rparr>,
              \<lparr> poolId = ''B'', name = None, slug = None, blockCount = Fin 3, emptyBlocks = Some (Fin 1) \<rparr>] \<rparr>,
       headers = [''x-total-count'' \<mapsto> ''abc''] \<rparr>"

section \<open>Properties\<close>

subsection \<open>Digits and decimal strings\<close>

lemma digit_cases: "d < 10 \<Longrightarrow> d \<in> {0, 1, 2, 3, 4, 5, 6, 7, 8, 9::nat}"
  by auto

lemma isDigit_digitChar: "d < 10 \<Longrightarrow> isDigit (digitChar d)"
  using digit_cases [of d] by (auto simp: isDigit_def digitChar_def)

lemma digitVal_digitChar: "d < 10 \<Longrightarrow> digitVal (digitChar d) = d"
  using digit_cases [of d] by (auto simp: digitVal_def digitChar_def)

lemma digitsVal_snoc: "digitsVal (ds @ [c]) = 10 * digitsVal ds + digitVal c"
  by (simp add: digitsVal_def)

lemma showNat_digits: "c \<in> set (showNat n) \<Longrightarrow> isDigit c"
proof (induction n rule: showNat.induct)
  case (1 n)
  show ?case
  proof (cases "n < 10")
    case True
    with "1.prems" show ?thesis
      by (simp add: showNat.simps [of n] isDigit_digitChar)
  next
    case False
    then have "showNat n = showNat (n div 10) @ [digitChar (n mod 10)]"
      by (subst showNat.simps) simp
    with "1.prems" have "c \<in> set (showNat (n div 10)) \<or> c = digitChar (n mod 10)"
      by auto
    with "1.IH" [OF False] show ?thesis
      by (auto simp: isDigit_digitChar)
  qed
qed

lemma showNat_nonempty: "showNat n \<noteq> []"
  by (simp add: showNat.simps [of n])

lemma digitsVal_showNat: "digitsVal (showNat n) = n"
proof (induction n rule: showNat.induct)
  case (1 n)
  show ?case
  proof (cases "n < 10")
    case True
    then show ?thesis
      by (simp add: showNat.simps [of n] digitsVal_def digitVal_digitChar)
  next
    case False
    with "1.IH" show ?thesis
      by (simp add: showNat.simps [of n] digitsVal_snoc digitVal_digitChar)
  qed
qed

lemma digitsVal_zeros: "digitsVal (replicate k (CHR ''0'') @ ds) = digitsVal ds"
proof (induction k)
  case 0
  then show ?case by simp
next
  case (Suc k)
  have "foldl (\<lambda>acc c. 10 * acc + digitVal c) 0 (CHR ''0'' # replicate k (CHR ''0'') @ ds)
      = foldl (\<lambda>acc c. 10 * acc + digitVal c) 0 (replicate k (CHR ''0'') @ ds)"
    by (simp add: digitVal_def)
  with Suc show ?case by (simp add: digitsVal_def)
qed


lemma isDigit_not_special:
  assumes "isDigit c"
  shows "\<not> isWhiteSpace c" and "c \<noteq> CHR ''-''" and "c \<noteq> CHR ''+''" and "c \<noteq> CHR ''I''"
  using assms by (auto simp: isDigit_def isWhiteSpace_def)

lemma not_isDigit_point: "\<not> isDigit (CHR ''.'')"
  by (simp add: isDigit_def)

lemma parseFloat_unsigned_decimal:
  assumes ip: "ip \<noteq> []" "\<forall>c\<in>set ip. isDigit c" and fp: "\<forall>c\<in>set fp. isDigit c"
  shows "parseFloat (ip @ ''.'' @ fp) = Fin (rat_of_nat (digitsVal (ip @ fp)) / 10 ^ length fp)"
proof -
  from ip obtain c ip' where c: "ip = c # ip'" "isDigit c"
    by (cases ip) auto
  let ?u = "ip @ CHR ''.'' # fp"
  have u: "?u = c # ip' @ CHR ''.'' # fp" using c by simp
  have ws: "dropWhile isWhiteSpace ?u = ?u"
    unfolding u using isDigit_not_special(1) [OF c(2)] by simp
  have sg: "splitSign ?u = (False, ?u)"
    unfolding u using isDigit_not_special(2,3) [OF c(2)] by (simp add: splitSign_def)
  have inf: "take 8 ?u \<noteq> ''Infinity''"
    unfolding u using isDigit_not_special(4) [OF c(2)] by simp
  have tw: "takeWhile isDigit ?u = ip"
    using ip(2) by (simp add: takeWhile_append2 not_isDigit_point)
  have dw: "dropWhile isDigit ?u = CHR ''.'' # fp"
    using ip(2) by (simp add: dropWhile_append2 not_isDigit_point)
  have twf: "takeWhile isDigit fp = fp" and dwf: "dropWhile isDigit fp = []"
    using fp by simp_all
  have "parseFloat ?u = Fin (rat_of_nat (digitsVal (ip @ fp)) / 10 ^ length fp)"
    unfolding parseFloat_def ws sg using inf ip(1)
    by (simp add: tw dw twf dwf exponentPart_def Let_def)
  then show ?thesis by simp
qed

lemma parseFloat_negative_decimal:
  assumes ip: "ip \<noteq> []" "\<forall>c\<in>set ip. isDigit c" and fp: "\<forall>c\<in>set fp. isDigit c"
  shows "parseFloat (''-'' @ ip @ ''.'' @ fp) = Fin (- (rat_of_nat (digitsVal (ip @ fp)) / 10 ^ length fp))"
proof -
  from ip obtain c ip' where c: "ip = c # ip'" "isDigit c"
    by (cases ip) auto
  let ?u = "ip @ CHR ''.'' # fp"
  have u: "?u = c # ip' @ CHR ''.'' # fp" using c by simp
  have ws: "dropWhile isWhiteSpace (CHR ''-'' # ?u) = CHR ''-'' # ?u"
    by (simp add: isWhiteSpace_def)
  have sg: "splitSign (CHR ''-'' # ?u) = (True, ?u)"
    by (simp add: splitSign_def)
  have inf: "take 8 ?u \<noteq> ''Infinity''"
    unfolding u using isDigit_not_special(4) [OF c(2)] by simp
  have tw: "takeWhile isDigit ?u = ip"
    using ip(2) by (simp add: takeWhile_append2 not_isDigit_point)
  have dw: "dropWhile isDigit ?u = CHR ''.'' # fp"
    using ip(2) by (simp add: dropWhile_append2 not_isDigit_point)
  have twf: "takeWhile isDigit fp = fp" and dwf: "dropWhile isDigit fp = []"
    using fp by simp_all
  have "parseFloat (CHR ''-'' # ?u) = Fin (- (rat_of_nat (digitsVal (ip @ fp)) / 10 ^ length fp))"
    unfolding parseFloat_def ws sg using inf ip(1)
    by (simp add: tw dw twf dwf exponentPart_def Let_def)
  then show ?thesis by simp
qed


lemma toFixed2_unfold:
  assumes "\<bar>r\<bar> < 10 ^ 21"
  shows "toFixed t (Fin r) 2 =
           (if r < 0 then ''-'' else [])
             @ take (length (padZeros 2 (showNat (nat \<lfloor>\<bar>r\<bar> * 100 + 1 / 2\<rfloor>))) - 2)
                 (padZeros 2 (showNat (nat \<lfloor>\<bar>r\<bar> * 100 + 1 / 2\<rfloor>)))
             @ ''.''
             @ drop (length (padZeros 2 (showNat (nat \<lfloor>\<bar>r\<bar> * 100 + 1 / 2\<rfloor>))) - 2)
                 (padZeros 2 (showNat (nat \<lfloor>\<bar>r\<bar> * 100 + 1 / 2\<rfloor>)))"
  using assms by (simp add: toFixed_def padZeros_def Let_def)

lemma padZeros2_props:
  assumes "m \<noteq> []" and "\<forall>c\<in>set m. isDigit c"
  shows "3 \<le> length (padZeros 2 m)" and "\<forall>c\<in>set (padZeros 2 m). isDigit c"
    and "digitsVal (padZeros 2 m) = digitsVal m"
  using assms by (auto simp: padZeros_def digitsVal_zeros isDigit_def)

lemma toFixed2_form:
  assumes "\<bar>r\<bar> < 10 ^ 21"
  shows "\<exists>ip fp. toFixed t (Fin r) 2 = (if r < 0 then ''-'' else []) @ ip @ ''.'' @ fp
           \<and> ip \<noteq> [] \<and> (\<forall>c\<in>set ip. isDigit c) \<and> (\<forall>c\<in>set fp. isDigit c)
           \<and> length fp = 2 \<and> digitsVal (ip @ fp) = nat \<lfloor>\<bar>r\<bar> * 100 + 1 / 2\<rfloor>"
proof -
  define m where "m = padZeros 2 (showNat (nat \<lfloor>\<bar>r\<bar> * 100 + 1 / 2\<rfloor>))"
  have len: "3 \<le> length m" and dig: "\<forall>c\<in>set m. isDigit c"
    and val: "digitsVal m = nat \<lfloor>\<bar>r\<bar> * 100 + 1 / 2\<rfloor>"
    unfolding m_def using padZeros2_props [OF showNat_nonempty, of "nat \<lfloor>\<bar>r\<bar> * 100 + 1 / 2\<rfloor>"]
    by (simp_all add: showNat_digits digitsVal_showNat)
  let ?ip = "take (length m - 2) m" and ?fp = "drop (length m - 2) m"
  have "toFixed t (Fin r) 2 = (if r < 0 then ''-'' else []) @ ?ip @ ''.'' @ ?fp"
    using toFixed2_unfold [OF assms, of t] by (simp add: m_def)
  moreover have "?ip \<noteq> []" using len by (auto simp: take_eq_Nil)
  moreover have "\<forall>c\<in>set ?ip. isDigit c" using dig by (meson in_set_takeD)
  moreover have "\<forall>c\<in>set ?fp. isDigit c" using dig by (meson in_set_dropD)
  moreover have "length ?fp = 2" using len by simp
  moreover have "digitsVal (?ip @ ?fp) = nat \<lfloor>\<bar>r\<bar> * 100 + 1 / 2\<rfloor>" using val by simp
  ultimately show ?thesis by blast
qed

text \<open>Reading back what \<^verbatim>\<open>toFixed(2)\<close> prints.\<close>

lemma parseFloat_toFixed2:
  assumes "\<bar>r\<bar> < 10 ^ 21"
  shows "parseFloat (toFixed t (Fin r) 2) =
           Fin ((if r < 0 then - 1 else 1) * rat_of_nat (nat \<lfloor>\<bar>r\<bar> * 100 + 1 / 2\<rfloor>) / 100)"
proof -
  from toFixed2_form [OF assms, of t] obtain ip fp where
    s: "toFixed t (Fin r) 2 = (if r < 0 then ''-'' else []) @ ip @ ''.'' @ fp"
    and ip: "ip \<noteq> []" "\<forall>c\<in>set ip. isDigit c" and fp: "\<forall>c\<in>set fp. isDigit c"
    and l: "length fp = 2" and v: "digitsVal (ip @ fp) = nat \<lfloor>\<bar>r\<bar> * 100 + 1 / 2\<rfloor>"
    by blast
  show ?thesis
  proof (cases "r < 0")
    case True
    then show ?thesis
      using parseFloat_negative_decimal [OF ip fp] s l v by simp
  next
    case False
    then show ?thesis
      using parseFloat_unsigned_decimal [OF ip fp] s l v by simp
  qed
qed

subsection \<open>The fields of the derived statistics\<close>

lemmas derived_defs = derivePoolStat_def RawPoolStat.extend_def DerivedPoolStat.fields_def

lemma derivePoolStat_raw:
  "RawPoolStat.blockCount (derivePoolStat t stats sbc dv poolStat) = RawPoolStat.blockCount poolStat"
  "emptyBlocks (derivePoolStat t stats sbc dv poolStat) = emptyBlocks poolStat"
  "poolId (derivePoolStat t stats sbc dv poolStat) = poolId poolStat"
  "slug (derivePoolStat t stats sbc dv poolStat) = slug poolStat"
  "name (derivePoolStat t stats sbc dv poolStat) = name poolStat"
  by (simp_all add: derived_defs)

lemma share_derivePoolStat:
  "share (derivePoolStat t stats sbc dv poolStat) =
     (if jsgt (toNumber (PoolsStats.blockCount stats)) (Fin 0)
      then parseFloat (toFixed t
             (jsmul (jsdiv (RawPoolStat.blockCount poolStat) (toNumber (PoolsStats.blockCount stats)))
                (Fin 100)) 2)
      else Fin 0)"
  by (simp add: derived_defs)

lemma emptyBlockRatio_derivePoolStat:
  "emptyBlockRatio (derivePoolStat t stats sbc dv poolStat) =
     (if jsgt (RawPoolStat.blockCount poolStat) (Fin 0)
      then toFixed t
             (jsmul (jsdiv (jsor (emptyBlocks poolStat) (Fin 0)) (RawPoolStat.blockCount poolStat))
                (Fin 100)) 2
      else ''0.00'')"
  by (simp add: derived_defs)


lemma hashrateDivider_getMiningUnits:
  "hashrateDivider (getMiningUnits network) =
     (if network = ''testnet'' \<or> network = ''testnet4'' then Fin (10 ^ 12) else Fin (10 ^ 18))"
  by (simp add: getMiningUnits_def)

lemma pools_generateMiningStats:
  "pools (generateMiningStats t network response) =
     map (derivePoolStat t (body response) (safeBlockCount (body response))
            (hashrateDivider (getMiningUnits network)))
       (PoolsStats.pools (body response))"
  by (simp add: generateMiningStats_def Let_def)

lemma totalEmptyBlockRatio_generateMiningStats:
  "totalEmptyBlockRatio (generateMiningStats t network response) =
     (if jsgt (toNumber (PoolsStats.blockCount (body response))) (Fin 0)
      then toFixed t
             (jsmul (jsdiv (foldl (\<lambda>prev cur. jsadd prev (jsor (emptyBlocks cur) (Fin 0))) (Fin 0)
                              (PoolsStats.pools (body response)))
                       (toNumber (PoolsStats.blockCount (body response)))) (Fin 100)) 2
      else ''0.00'')"
  by (simp add: generateMiningStats_def Let_def)

lemma hashrate_generateMiningStats:
  "lastEstimatedHashrate (generateMiningStats t network response) =
     jsdiv (jsor (PoolsStats.lastEstimatedHashrate (body response)) (Fin 0)) (hashrateDivider (getMiningUnits network))"
  "lastEstimatedHashrate3d (generateMiningStats t network response) =
     jsdiv (jsor (PoolsStats.lastEstimatedHashrate3d (body response)) (Fin 0)) (hashrateDivider (getMiningUnits network))"
  "lastEstimatedHashrate1w (generateMiningStats t network response) =
     jsdiv (jsor (PoolsStats.lastEstimatedHashrate1w (body response)) (Fin 0)) (hashrateDivider (getMiningUnits network))"
  by (simp_all add: generateMiningStats_def Let_def)

lemma totalBlockCount_generateMiningStats:
  "totalBlockCount (generateMiningStats t network response) =
     parseInt10 (strOr (headers response ''x-total-count'') ''0'')"
  by (simp add: generateMiningStats_def Let_def)

lemma rounded_percent_bounds:
  fixes q :: rat
  assumes "0 \<le> q" and "q \<le> 100"
  shows "0 \<le> rat_of_nat (nat \<lfloor>q * 100 + 1 / 2\<rfloor>) / 100"
    and "rat_of_nat (nat \<lfloor>q * 100 + 1 / 2\<rfloor>) / 100 \<le> 100"
proof -
  show "0 \<le> rat_of_nat (nat \<lfloor>q * 100 + 1 / 2\<rfloor>) / 100" by simp
  have "q * 100 + 1 / 2 < 10001" using assms(2) by simp
  then have "nat \<lfloor>q * 100 + 1 / 2\<rfloor> \<le> 10000" by (simp add: nat_le_iff)
  then have "rat_of_nat (nat \<lfloor>q * 100 + 1 / 2\<rfloor>) \<le> 10000"
    by (metis of_nat_le_iff of_nat_numeral)
  then show "rat_of_nat (nat \<lfloor>q * 100 + 1 / 2\<rfloor>) / 100 \<le> 100" by simp
qed

lemma percent_share_in_range:
  fixes a b :: rat
  assumes "0 \<le> a" and "a \<le> b" and "0 < b"
  shows "\<exists>v. parseFloat (toFixed t (jsmul (jsdiv (Fin a) (Fin b)) (Fin 100)) 2) = Fin v \<and> 0 \<le> v \<and> v \<le> 100"
proof -
  define q where "q = a / b * 100"
  have q: "0 \<le> q" "q \<le> 100" using assms by (simp_all add: q_def divide_le_eq)
  then have small: "\<bar>q\<bar> < 10 ^ 21" by simp
  have eq: "jsmul (jsdiv (Fin a) (Fin b)) (Fin 100) = Fin q" using assms(3) by (simp add: q_def)
  have "parseFloat (toFixed t (Fin q) 2) = Fin (rat_of_nat (nat \<lfloor>q * 100 + 1 / 2\<rfloor>) / 100)"
    using parseFloat_toFixed2 [OF small, of t] q(1) by simp
  then show ?thesis
    unfolding eq using rounded_percent_bounds [OF q] by blast
qed



subsection \<open>Evaluating the formats\<close>

lemma toFixed2_eval:
  assumes "\<bar>r\<bar> < 10 ^ 21" and "\<lfloor>\<bar>r\<bar> * 100 + 1 / 2\<rfloor> = int n" and "padZeros 2 (showNat n) = m"
  shows "toFixed t (Fin r) 2 =
           (if r < 0 then ''-'' else []) @ take (length m - 2) m @ ''.'' @ drop (length m - 2) m"
  using toFixed2_unfold [OF assms(1), of t] assms(2,3) by simp

lemma showNat_small: "n < 10 \<Longrightarrow> showNat n = [digitChar n]"
  by (subst showNat.simps) simp

lemma showNat_big: "10 \<le> n \<Longrightarrow> showNat n = showNat (n div 10) @ [digitChar (n mod 10)]"
  by (subst showNat.simps) simp

lemma replicate_2: "replicate 2 c = [c, c]"
  by (simp add: numeral_2_eq_2)

lemma showNat_examples:
  "padZeros 2 (showNat 0) = ''000''"
  "padZeros 2 (showNat 100) = ''100''"
  "padZeros 2 (showNat 167) = ''167''"
  "padZeros 2 (showNat 3333) = ''3333''"
  "padZeros 2 (showNat 30000) = ''30000''"
  by (simp_all add: showNat_small showNat_big digitChar_def padZeros_def replicate_2)

lemma toFixed_examples:
  "toFixed t (Fin 0) 2 = ''0.00''"
  "toFixed t (Fin 1) 2 = ''1.00''"
  "toFixed t (Fin (5 / 3)) 2 = ''1.67''"
  "toFixed t (Fin (100 / 3)) 2 = ''33.33''"
  "toFixed t (Fin 300) 2 = ''300.00''"
  using toFixed2_eval [of 0 0 "''000''" t] toFixed2_eval [of 1 100 "''100''" t]
    toFixed2_eval [of "5 / 3" 167 "''167''" t] toFixed2_eval [of "100 / 3" 3333 "''3333''" t]
    toFixed2_eval [of 300 30000 "''30000''" t]
  by (simp_all add: showNat_examples floor_eq_iff)

lemma parseFloat_toFixed_examples:
  "parseFloat (toFixed t (Fin 60) 2) = Fin 60"
  "parseFloat (toFixed t (Fin 40) 2) = Fin 40"
  "parseFloat (toFixed t (Fin 200) 2) = Fin 200"
proof -
  have "\<lfloor>(60::rat) * 100 + 1 / 2\<rfloor> = 6000" "\<lfloor>(40::rat) * 100 + 1 / 2\<rfloor> = 4000"
    "\<lfloor>(200::rat) * 100 + 1 / 2\<rfloor> = 20000"
    by (simp_all add: floor_eq_iff)
  then show "parseFloat (toFixed t (Fin 60) 2) = Fin 60"
    "parseFloat (toFixed t (Fin 40) 2) = Fin 40"
    "parseFloat (toFixed t (Fin 200) 2) = Fin 200"
    using parseFloat_toFixed2 [of 60 t] parseFloat_toFixed2 [of 40 t] parseFloat_toFixed2 [of 200 t]
    by simp_all
qed

lemma parseFloat_zero: "parseFloat ''0.00'' = Fin 0"
  using parseFloat_unsigned_decimal [of "''0''" "''00''"]
  by (simp add: isDigit_def digitsVal_def digitVal_def)

lemma example_pools:
  "map share (pools (generateMiningStats t network examplePayload)) = [Fin 60, Fin 40]"
  by (simp add: pools_generateMiningStats share_derivePoolStat examplePayload_def toNumber_def
      parseFloat_toFixed_examples)

lemma example_ratios:
  "map emptyBlockRatio (pools (generateMiningStats t network examplePayload)) = [''1.67'', ''0.00'']"
  by (simp add: pools_generateMiningStats emptyBlockRatio_derivePoolStat examplePayload_def jsor_def
      toFixed_examples)

lemma example_total_ratio:
  "totalEmptyBlockRatio (generateMiningStats t network examplePayload) = ''1.00''"
  by (simp add: totalEmptyBlockRatio_generateMiningStats examplePayload_def jsor_def toNumber_def toFixed_examples)

lemma example_hashrate:
  "network \<noteq> ''testnet'' \<Longrightarrow> network \<noteq> ''testnet4'' \<Longrightarrow>
   lastEstimatedHashrate (generateMiningStats t network examplePayload) = Fin 500"
  by (simp add: hashrate_generateMiningStats examplePayload_def jsor_def hashrateDivider_getMiningUnits)

subsection \<open>Divisors and the pools of the result\<close>



lemma other_fields_generateMiningStats:
  "blockCount (generateMiningStats t network response) = jsor (PoolsStats.blockCount (body response)) (Fin 0)"
  "totalEmptyBlock (generateMiningStats t network response) =
     foldl (\<lambda>prev cur. jsadd prev (jsor (emptyBlocks cur) (Fin 0))) (Fin 0) (PoolsStats.pools (body response))"
  "miningUnits (generateMiningStats t network response) = getMiningUnits network"
  by (simp_all add: generateMiningStats_def Let_def)

lemma truncate_derivePoolStat:
  "RawPoolStat.truncate (derivePoolStat t stats sbc dv poolStat) = poolStat"
  by (simp add: derived_defs RawPoolStat.truncate_def)

lemma truncate_pools_generateMiningStats:
  "map RawPoolStat.truncate (pools (generateMiningStats t network response)) = PoolsStats.pools (body response)"
  by (simp add: pools_generateMiningStats truncate_derivePoolStat comp_def)

subsection \<open>Parsing the header\<close>

lemma parseInt10_showNat:
  assumes "k \<le> 2 ^ 53"
  shows "parseInt10 (showNat k) = Fin (rat_of_nat k)"
proof -
  obtain c cs where cs: "showNat k = c # cs"
    using showNat_nonempty [of k] by (cases "showNat k") auto
  then have c: "isDigit c"
    using showNat_digits [of c k] by simp
  have ws: "dropWhile isWhiteSpace (showNat k) = showNat k"
    unfolding cs using isDigit_not_special(1) [OF c] by simp
  have sg: "splitSign (showNat k) = (False, showNat k)"
    unfolding cs using isDigit_not_special(2,3) [OF c] by (simp add: splitSign_def)
  have tw: "takeWhile isDigit (showNat k) = showNat k"
    using showNat_digits [of _ k] by (simp add: takeWhile_eq_all_conv)
  show ?thesis
    unfolding parseInt10_def ws sg
    using assms by (simp add: tw showNat_nonempty digitsVal_showNat numberOfInteger_def)
qed

lemma parseInt10_no_digits:
  "takeWhile isDigit (snd (splitSign (dropWhile isWhiteSpace s))) = [] \<Longrightarrow> parseInt10 s = NaN"
  by (simp add: parseInt10_def split_beta)

lemma parseInt10_zero: "parseInt10 ''0'' = Fin 0"
  using parseInt10_showNat [of 0] by (simp add: showNat_small digitChar_def)

lemma parseInt10_padded_showNat:
  assumes ws: "\<forall>c\<in>set ws. isWhiteSpace c" and k: "k \<le> 2 ^ 53"
  shows "parseInt10 (ws @ showNat k) = Fin (rat_of_nat k)"
proof -
  obtain c cs where cs: "showNat k = c # cs"
    using showNat_nonempty [of k] by (cases "showNat k") auto
  then have "isDigit c"
    using showNat_digits [of c k] by simp
  then have "\<not> isWhiteSpace c"
    by (rule isDigit_not_special(1))
  then have "dropWhile isWhiteSpace (ws @ showNat k) = showNat k"
    using ws unfolding cs by (simp add: dropWhile_append2)
  moreover have "dropWhile isWhiteSpace (showNat k) = showNat k"
    unfolding cs using \<open>\<not> isWhiteSpace c\<close> by simp
  ultimately have "parseInt10 (ws @ showNat k) = parseInt10 (showNat k)"
    by (simp add: parseInt10_def)
  with parseInt10_showNat [OF k] show ?thesis
    by simp
qed

subsection \<open>Sequences of events\<close>


lemma observations_append:
  "observations t w (xs @ ys) = observations t w xs @ observations t (worldAfter t w xs) ys"
  by (induction xs arbitrary: w) simp_all




lemma step_keeps_absent:
  "\<not> arrivesFor interval e \<Longrightarrow> cache (svc w) interval = None \<Longrightarrow>
   cache (svc (fst (step t w e))) interval = None"
  by (cases e)
    (auto simp: fetchMiningStats_def fetchPools_def networkChanged_def clearCache_def Let_def
      split: option.splits sum.splits)

lemma noArrival_keeps_absent:
  "noArrivalFor interval es \<Longrightarrow> cache (svc w) interval = None \<Longrightarrow>
   cache (svc (worldAfter t w es)) interval = None"
  by (induction es arbitrary: w) (simp_all add: noArrivalFor_def step_keeps_absent)


lemma last_observation:
  "last (observations t w (es @ [e])) = snd (step t (worldAfter t w es) e)"
  by (simp add: observations_append)

lemmas run_simps = newWorld_def newMiningService_def cachedMiningStats_def fetchMiningStats_def
  fetchPools_def networkChanged_def clearCache_def Let_def

subsection \<open>Unit selection\<close>

text \<open>
  C9. \<^verbatim>\<open>getMiningUnits\<close> returns a value for every network identifier: divider \<open>10^12\<close> and
  unit \<open>TH/s\<close> on the test networks (\<open>testnet\<close>, \<open>testnet4\<close>), divider \<open>10^18\<close> and unit
  \<open>EH/s\<close> on the main network and on every other identifier.
\<close>

theorem getMiningUnits_total:
  "getMiningUnits network =
     (if network = ''testnet'' \<or> network = ''testnet4''
      then \<lparr> hashrateDivider = Fin (10 ^ 12), hashrateUnit = ''TH/s'' \<rparr>
      else \<lparr> hashrateDivider = Fin (10 ^ 18), hashrateUnit = ''EH/s'' \<rparr>)"
  by (simp add: getMiningUnits_def powerTable_def)

subsection \<open>Default timespan\<close>

lemma indexOfFrom_absent: "x \<notin> set xs \<Longrightarrow> indexOfFrom i xs x = -1"
  by (induction xs arbitrary: i) auto

lemma indexOfFrom_present: "x \<in> set xs \<Longrightarrow> i \<le> indexOfFrom i xs x"
proof (induction xs arbitrary: i)
  case Nil
  then show ?case by simp
next
  case (Cons y ys)
  show ?case
  proof (cases "y = x")
    case True
    then show ?thesis by simp
  next
    case False
    with Cons.prems have "x \<in> set ys" by simp
    from Cons.IH [OF this, of "i + 1"] False show ?thesis by simp
  qed
qed

lemma indexOf_timespans: "indexOf timespans t = timespan_rank_spec t"
  by (simp add: indexOf_def timespans_def timespan_rank_spec_def)

text \<open>
  C8. With the stored preference defaulting to \<open>1w\<close>, \<^verbatim>\<open>getDefaultTimespan(min)\<close> returns
  \<open>min\<close> when the preference ranks strictly before \<open>min\<close> in the fixed list and the
  preference otherwise; with floor \<open>1m\<close>, a stored \<open>24h\<close> gives \<open>1m\<close> and a stored \<open>1y\<close>
  gives \<open>1y\<close>.
\<close>

theorem getDefaultTimespan_rank:
  "getDefaultTimespan stored minimum =
     (if timespan_rank_spec (case stored of None \<Rightarrow> ''1w'' | Some v \<Rightarrow> v) < timespan_rank_spec minimum
      then minimum else (case stored of None \<Rightarrow> ''1w'' | Some v \<Rightarrow> v))
   \<and> getDefaultTimespan (Some ''24h'') ''1m'' = ''1m''
   \<and> getDefaultTimespan (Some ''1y'') ''1m'' = ''1y''"
  by (simp add: getDefaultTimespan_def indexOf_timespans Let_def) (simp add: timespan_rank_spec_def)

text \<open>
  C10. When \<open>min\<close> is one of the ten tokens and the stored preference is a string outside
  the list, \<^verbatim>\<open>getDefaultTimespan(min)\<close> returns \<open>min\<close>.
\<close>

theorem getDefaultTimespan_unknown_preference:
  assumes "minimum \<in> set timespans" and "pref \<notin> set timespans"
  shows "getDefaultTimespan (Some pref) minimum = minimum"
proof -
  have "indexOf timespans pref = -1"
    using assms(2) by (simp add: indexOf_def indexOfFrom_absent)
  moreover have "0 \<le> indexOf timespans minimum"
    using indexOfFrom_present [OF assms(1), of 0] by (simp add: indexOf_def)
  ultimately show ?thesis
    by (simp add: getDefaultTimespan_def)
qed

theorem getDefaultTimespan_unknown_preference_witness:
  "''1m'' \<in> set timespans \<and> ''hourly'' \<notin> set timespans
   \<and> getDefaultTimespan (Some ''hourly'') ''1m'' = ''1m''"
proof -
  have m: "''1m'' \<in> set timespans" by (simp add: timespans_def)
  have p: "''hourly'' \<notin> set timespans" by (simp add: timespans_def)
  show ?thesis
    using m p getDefaultTimespan_unknown_preference [OF m p] by simp
qed

subsection \<open>The end-to-end example\<close>

text \<open>
  C5, as amended. On the main network (any network other than the two test networks) the
  example payload gives pool A the share \<open>60\<close> and the empty-block ratio \<open>1.67\<close>, pool B
  the share \<open>40\<close> and the ratio \<open>0.00\<close>, the total ratio \<open>1.00\<close>, and the top-level
  \<^verbatim>\<open>lastEstimatedHashrate\<close> \<open>5e20 / 1e18 = 500\<close>.
\<close>

theorem generateMiningStats_example:
  assumes "network \<noteq> ''testnet''" and "network \<noteq> ''testnet4''"
  shows "map poolId (pools (generateMiningStats t network examplePayload)) = [''A'', ''B'']
       \<and> map share (pools (generateMiningStats t network examplePayload)) = [Fin 60, Fin 40]
       \<and> map emptyBlockRatio (pools (generateMiningStats t network examplePayload)) = [''1.67'', ''0.00'']
       \<and> totalEmptyBlockRatio (generateMiningStats t network examplePayload) = ''1.00''
       \<and> lastEstimatedHashrate (generateMiningStats t network examplePayload) = Fin 500"
proof -
  have "map poolId (pools (generateMiningStats t network examplePayload)) = [''A'', ''B'']"
    by (simp add: pools_generateMiningStats derivePoolStat_raw examplePayload_def)
  with example_pools example_ratios example_total_ratio example_hashrate [OF assms]
  show ?thesis by simp
qed

theorem generateMiningStats_example_witness:
  "map share (pools (generateMiningStats exampleToString '''' examplePayload)) = [Fin 60, Fin 40]
   \<and> lastEstimatedHashrate (generateMiningStats exampleToString '''' examplePayload) = Fin 500"
  using generateMiningStats_example [of "''''" exampleToString] by simp

text \<open>The top-level estimate of the example is not \<open>0.5\<close>.\<close>

theorem example_hashrate_not_half:
  "lastEstimatedHashrate (generateMiningStats exampleToString '''' examplePayload) \<noteq> Fin (1 / 2)"
  by (simp add: hashrate_generateMiningStats examplePayload_def jsor_def hashrateDivider_getMiningUnits)

subsection \<open>Ranges of share and ratio\<close>

text \<open>
  C6, as amended. Every derived pool stands for a pool of the payload, and the derived
  pools are those of the payload in order. When the total block count is a finite
  number \<open>B\<close> and the block count \<open>b\<close> of a derived pool satisfies \<open>0 \<le> b \<le> B\<close>, its share
  is in \<open>[0, 100]\<close>. When the block count of a derived pool is a finite number \<open>b\<close> and
  its empty-block count \<open>c\<close> (zero when missing) satisfies \<open>0 \<le> c \<le> b\<close>, its
  \<^verbatim>\<open>emptyBlockRatio\<close>, read as a number, is in \<open>[0, 100]\<close>.
\<close>

theorem derived_share_ratio_in_range:
  assumes d: "d \<in> set (pools (generateMiningStats t network response))"
  shows "(\<forall>B b. PoolsStats.blockCount (body response) = Some (Fin B)
              \<and> RawPoolStat.blockCount d = Fin b \<and> 0 \<le> b \<and> b \<le> B
            \<longrightarrow> (\<exists>v. share d = Fin v \<and> 0 \<le> v \<and> v \<le> 100))
       \<and> (\<forall>b c. RawPoolStat.blockCount d = Fin b
              \<and> jsor (emptyBlocks d) (Fin 0) = Fin c \<and> 0 \<le> c \<and> c \<le> b
            \<longrightarrow> (\<exists>w. parseFloat (emptyBlockRatio d) = Fin w \<and> 0 \<le> w \<and> w \<le> 100))
       \<and> RawPoolStat.truncate d \<in> set (PoolsStats.pools (body response))
       \<and> map RawPoolStat.truncate (pools (generateMiningStats t network response))
           = PoolsStats.pools (body response)"
proof -
  from d obtain p where
    dp: "d = derivePoolStat t (body response) (safeBlockCount (body response))
               (hashrateDivider (getMiningUnits network)) p"
    and p: "p \<in> set (PoolsStats.pools (body response))"
    by (auto simp: pools_generateMiningStats)
  have share: "\<exists>v. share d = Fin v \<and> 0 \<le> v \<and> v \<le> 100"
    if bc: "PoolsStats.blockCount (body response) = Some (Fin B)"
      and b: "RawPoolStat.blockCount d = Fin b" "0 \<le> b" "b \<le> B" for B b
  proof (cases "0 < B")
    case True
    have pb: "RawPoolStat.blockCount p = Fin b"
      using b(1) by (simp add: dp derivePoolStat_raw)
    from percent_share_in_range [OF b(2) b(3) True, of t] show ?thesis
      by (simp add: dp share_derivePoolStat bc toNumber_def pb True)
  next
    case False
    then show ?thesis
      by (simp add: dp share_derivePoolStat bc toNumber_def)
  qed
  have ratio: "\<exists>w. parseFloat (emptyBlockRatio d) = Fin w \<and> 0 \<le> w \<and> w \<le> 100"
    if b: "RawPoolStat.blockCount d = Fin b"
      and c: "jsor (emptyBlocks d) (Fin 0) = Fin c" "0 \<le> c" "c \<le> b" for b c
  proof -
    have pb: "RawPoolStat.blockCount p = Fin b" and pc: "jsor (emptyBlocks p) (Fin 0) = Fin c"
      using b c(1) by (simp_all add: dp derivePoolStat_raw)
    show ?thesis
    proof (cases "0 < b")
      case True
      with percent_share_in_range [OF c(2) c(3) True, of t] show ?thesis
        by (simp add: dp emptyBlockRatio_derivePoolStat pb pc)
    next
      case False
      then show ?thesis
        by (simp add: dp emptyBlockRatio_derivePoolStat pb parseFloat_zero)
    qed
  qed
  have raw: "RawPoolStat.truncate d \<in> set (PoolsStats.pools (body response))"
    using p by (simp add: dp truncate_derivePoolStat)
  from share ratio raw truncate_pools_generateMiningStats [of t network response]
  show ?thesis by blast
qed

theorem derived_share_ratio_in_range_witness:
  "hd (pools (generateMiningStats exampleToString '''' examplePayload))
         \<in> set (pools (generateMiningStats exampleToString '''' examplePayload))
   \<and> PoolsStats.blockCount (body examplePayload) = Some (Fin 100)
   \<and> RawPoolStat.blockCount (hd (pools (generateMiningStats exampleToString '''' examplePayload))) = Fin 60
   \<and> jsor (emptyBlocks (hd (pools (generateMiningStats exampleToString '''' examplePayload)))) (Fin 0) = Fin 1
   \<and> (\<exists>v. share (hd (pools (generateMiningStats exampleToString '''' examplePayload))) = Fin v
          \<and> 0 \<le> v \<and> v \<le> 100)
   \<and> (\<exists>w. parseFloat (emptyBlockRatio (hd (pools (generateMiningStats exampleToString '''' examplePayload)))) = Fin w
          \<and> 0 \<le> w \<and> w \<le> 100)"
proof -
  let ?ms = "generateMiningStats exampleToString '''' examplePayload"
  have d: "hd (pools ?ms) \<in> set (pools ?ms)"
    by (simp add: pools_generateMiningStats examplePayload_def)
  have bc: "PoolsStats.blockCount (body examplePayload) = Some (Fin 100)"
    by (simp add: examplePayload_def)
  have b: "RawPoolStat.blockCount (hd (pools ?ms)) = Fin 60"
    by (simp add: pools_generateMiningStats examplePayload_def derivePoolStat_raw)
  have c: "jsor (emptyBlocks (hd (pools ?ms))) (Fin 0) = Fin 1"
    by (simp add: pools_generateMiningStats examplePayload_def derivePoolStat_raw jsor_def)
  note r = derived_share_ratio_in_range [OF d]
  have "\<exists>v. share (hd (pools ?ms)) = Fin v \<and> 0 \<le> v \<and> v \<le> 100"
    using r bc b by (elim conjE allE [of _ 100] allE [of _ 60]) simp
  moreover have "\<exists>w. parseFloat (emptyBlockRatio (hd (pools ?ms))) = Fin w \<and> 0 \<le> w \<and> w \<le> 100"
    using r b c by (elim conjE allE [of _ 60] allE [of _ 1]) simp
  ultimately show ?thesis
    using d bc b c by blast
qed

text \<open>
  Without those bounds the range fails: a pool with 200 of 100 blocks, 600 of them
  empty, gets the share \<open>200\<close> and the ratio \<open>300.00\<close>.
\<close>

theorem inconsistent_payload_out_of_range:
  "map share (pools (generateMiningStats exampleToString '''' inconsistentPayload)) = [Fin 200]
   \<and> map emptyBlockRatio (pools (generateMiningStats exampleToString '''' inconsistentPayload)) = [''300.00'']
   \<and> \<not> (200 \<le> (100::rat))"
  by (simp add: pools_generateMiningStats share_derivePoolStat emptyBlockRatio_derivePoolStat
      inconsistentPayload_def toNumber_def jsor_def parseFloat_toFixed_examples toFixed_examples)

subsection \<open>A total block count of zero\<close>



subsection \<open>The total count header\<close>

text \<open>
  C7, as amended. \<^verbatim>\<open>totalBlockCount\<close> is \<^verbatim>\<open>parseInt(header || '0', 10)\<close>: it is \<open>0\<close> when
  the \<^verbatim>\<open>x-total-count\<close> header is absent or empty; \<open>k\<close> when the header is, after leading
  white space, the decimal numeral of an integer \<open>k\<close> up to \<open>2^53\<close>; and \<open>NaN\<close> when the
  header is a non-empty string that, after leading white space and a sign, does not
  start with a decimal digit.
\<close>

theorem totalBlockCount_parse:
  "totalBlockCount (generateMiningStats t network response) =
     parseInt10 (strOr (headers response ''x-total-count'') ''0'')
   \<and> (headers response ''x-total-count'' = None \<or> headers response ''x-total-count'' = Some []
        \<longrightarrow> totalBlockCount (generateMiningStats t network response) = Fin 0)
   \<and> (headers response ''x-total-count'' = Some (ws @ showNat k)
        \<and> list_all isWhiteSpace ws \<and> k \<le> 2 ^ 53
        \<longrightarrow> totalBlockCount (generateMiningStats t network response) = Fin (rat_of_nat k))
   \<and> (headers response ''x-total-count'' = Some s \<and> s \<noteq> []
        \<and> takeWhile isDigit (snd (splitSign (dropWhile isWhiteSpace s))) = []
        \<longrightarrow> totalBlockCount (generateMiningStats t network response) = NaN)"
  by (auto simp: totalBlockCount_generateMiningStats strOr_def parseInt10_zero parseInt10_padded_showNat
      showNat_nonempty parseInt10_no_digits list_all_iff)

theorem totalBlockCount_parse_witness:
  "totalBlockCount (generateMiningStats exampleToString '''' examplePayload) = Fin 0
   \<and> totalBlockCount (generateMiningStats exampleToString ''''
        (examplePayload \<lparr> headers := [''x-total-count'' \<mapsto> char_of (160 :: nat) # ''42''] \<rparr>)) = Fin 42
   \<and> totalBlockCount (generateMiningStats exampleToString '''' zeroPayload) = NaN"
proof -
  let ?padded = "examplePayload \<lparr> headers := [''x-total-count'' \<mapsto> char_of (160 :: nat) # ''42''] \<rparr>"
  have absent: "headers examplePayload ''x-total-count'' = None"
    by (simp add: examplePayload_def)
  have numeral: "headers ?padded ''x-total-count'' = Some ([char_of (160 :: nat)] @ showNat 42)
      \<and> list_all isWhiteSpace [char_of (160 :: nat)] \<and> (42 :: nat) \<le> 2 ^ 53"
    by (simp add: showNat_small showNat_big digitChar_def isWhiteSpace_def)
  have letters: "headers zeroPayload ''x-total-count'' = Some ''abc'' \<and> ''abc'' \<noteq> []
      \<and> takeWhile isDigit (snd (splitSign (dropWhile isWhiteSpace ''abc''))) = []"
    by (simp add: zeroPayload_def isWhiteSpace_def splitSign_def isDigit_def)
  have a: "totalBlockCount (generateMiningStats exampleToString '''' examplePayload) = Fin 0"
    using totalBlockCount_parse [of exampleToString "''''" examplePayload] absent by blast
  have b: "totalBlockCount (generateMiningStats exampleToString '''' ?padded) = Fin (rat_of_nat 42)"
    using totalBlockCount_parse [of exampleToString "''''" ?padded "[char_of (160 :: nat)]" 42] numeral
    by blast
  have c: "totalBlockCount (generateMiningStats exampleToString '''' zeroPayload) = NaN"
    using totalBlockCount_parse [of exampleToString "''''" zeroPayload _ _ "''abc''"] letters by blast
  from a b c show ?thesis by simp
qed

text \<open>With the header \<open>abc\<close> the field is \<open>NaN\<close>, not \<open>0\<close>.\<close>

theorem nonnumeric_header_not_zero:
  "totalBlockCount (generateMiningStats exampleToString '''' zeroPayload) = NaN
   \<and> totalBlockCount (generateMiningStats exampleToString '''' zeroPayload) \<noteq> Fin 0"
  by (simp add: totalBlockCount_generateMiningStats zeroPayload_def strOr_def parseInt10_def
      isWhiteSpace_def splitSign_def isDigit_def)

subsection \<open>The cache window\<close>




subsection \<open>Network change\<close>

text \<open>
  C4, as amended. An event of the network-change notifier leaves the statistics cache
  without any entry and the pool list empty. If the outcome of no request for an
  interval arrives between the event and the next call of \<^verbatim>\<open>getMiningStats\<close> for that
  interval, that call requests from the backend, whatever else happens in between.
\<close>

theorem networkChanged_clears:
  "cache (svc (fst (step t w (NetworkChanges network)))) = Map.empty
   \<and> poolsData (svc (fst (step t w (NetworkChanges network)))) = []
   \<and> (noArrivalFor interval middle \<longrightarrow>
        last (observations t w (NetworkChanges network # middle @ [GetMiningStats interval now]))
          = StatsRequested interval)"
proof -
  let ?w1 = "fst (step t w (NetworkChanges network))"
  have cleared: "cache (svc ?w1) = Map.empty" "poolsData (svc ?w1) = []"
    by (simp_all add: networkChanged_def clearCache_def)
  have "last (observations t w (NetworkChanges network # middle @ [GetMiningStats interval now]))
          = StatsRequested interval" if quiet: "noArrivalFor interval middle"
  proof -
    have "cache (svc (worldAfter t ?w1 middle)) interval = None"
      using noArrival_keeps_absent [OF quiet, of ?w1 t] cleared(1) by simp
    then have "cachedMiningStats (svc (worldAfter t ?w1 middle)) interval now = None"
      by (simp add: cachedMiningStats_def)
    moreover have "last (observations t w ((NetworkChanges network # middle) @ [GetMiningStats interval now]))
        = snd (step t (worldAfter t w (NetworkChanges network # middle)) (GetMiningStats interval now))"
      by (rule last_observation)
    ultimately show ?thesis
      by simp
  qed
  with cleared show ?thesis by blast
qed

theorem networkChanged_clears_witness:
  "cache (svc (worldAfter exampleToString newWorld
       [GetMiningStats ''24h'' 1000, ListPoolsArrives ''24h'' (Inr examplePayload) 1200])) ''24h''
     = Some \<lparr> lastUpdated = 1200, data = generateMiningStats exampleToString '''' examplePayload \<rparr>
   \<and> noArrivalFor ''24h'' [GetPools, ListPoolsArrives ''1w'' (Inr examplePayload) 1400]
   \<and> last (observations exampleToString
        (worldAfter exampleToString newWorld
           [GetMiningStats ''24h'' 1000, ListPoolsArrives ''24h'' (Inr examplePayload) 1200])
        [NetworkChanges ''testnet'', GetPools, ListPoolsArrives ''1w'' (Inr examplePayload) 1400,
         GetMiningStats ''24h'' 1500])
       = StatsRequested ''24h''"
proof -
  let ?w = "worldAfter exampleToString newWorld
       [GetMiningStats ''24h'' 1000, ListPoolsArrives ''24h'' (Inr examplePayload) 1200]"
  let ?middle = "[GetPools, ListPoolsArrives ''1w'' (Inr examplePayload) 1400]"
  have cached: "cache (svc ?w) ''24h''
     = Some \<lparr> lastUpdated = 1200, data = generateMiningStats exampleToString '''' examplePayload \<rparr>"
    by (simp add: run_simps)
  have quiet: "noArrivalFor ''24h'' ?middle"
    by (simp add: noArrivalFor_def)
  from networkChanged_clears [of exampleToString ?w "''testnet''" "''24h''" ?middle 1500] quiet
  have "last (observations exampleToString ?w (NetworkChanges ''testnet'' # ?middle @ [GetMiningStats ''24h'' 1500]))
      = StatsRequested ''24h''"
    by blast
  then have "last (observations exampleToString ?w
        [NetworkChanges ''testnet'', GetPools, ListPoolsArrives ''1w'' (Inr examplePayload) 1400,
         GetMiningStats ''24h'' 1500]) = StatsRequested ''24h''"
    by (simp del: observations.simps worldAfter.simps)
  with cached quiet show ?thesis
    by blast
qed

text \<open>
  When the refresh of a stale entry is under way at the event, its outcome arrives
  after the caches were cleared and is stored, and the next call for the interval emits
  it without a request.
\<close>

theorem response_in_flight_repopulates:
  "cache (svc (worldAfter exampleToString newWorld
       [GetMiningStats ''24h'' 1000, ListPoolsArrives ''24h'' (Inr examplePayload) 1200,
        GetMiningStats ''24h'' 400000])) ''24h''
     = Some \<lparr> lastUpdated = 1200, data = generateMiningStats exampleToString '''' examplePayload \<rparr>
   \<and> observations exampleToString newWorld
       [GetMiningStats ''24h'' 1000, ListPoolsArrives ''24h'' (Inr examplePayload) 1200,
        GetMiningStats ''24h'' 400000,
        NetworkChanges ''testnet'',
        ListPoolsArrives ''24h'' (Inr examplePayload) 400100,
        GetMiningStats ''24h'' 400200]
     = [StatsRequested ''24h'',
        StatsEmitted (generateMiningStats exampleToString '''' examplePayload),
        StatsRequested ''24h'',
        CachesCleared,
        StatsEmitted (generateMiningStats exampleToString ''testnet'' examplePayload),
        StatsEmitted (generateMiningStats exampleToString ''testnet'' examplePayload)]"
  by (simp add: run_simps)

subsection \<open>A failed request\<close>

text \<open>
  C1. On a new service, a call for \<open>24h\<close> whose request fails emits the empty statistics
  (zero numbers, no pools, ratio \<open>0.00\<close>, the units of the current network). Then \<^verbatim>\<open>tap\<close>,
  which comes after \<^verbatim>\<open>catchError\<close> in the pipe, stores them under \<open>24h\<close>: the cache entry
  of the key does not stay as it was, and a call one second later emits the stored empty
  statistics without a request, although the backend would now answer.
\<close>

theorem failed_fetch_is_cached:
  "cache newMiningService ''24h'' = None
   \<and> fetched (getMiningStats exampleToString '''' newMiningService ''24h'' 1000 (Inl (HttpError 503)) 1200)
   \<and> emitted (getMiningStats exampleToString '''' newMiningService ''24h'' 1000 (Inl (HttpError 503)) 1200)
       = emptyStats ''''
   \<and> cache (service (getMiningStats exampleToString '''' newMiningService ''24h'' 1000 (Inl (HttpError 503)) 1200))
        ''24h'' = Some \<lparr> lastUpdated = 1200, data = emptyStats '''' \<rparr>
   \<and> \<not> fetched (getMiningStats exampleToString ''''
          (service (getMiningStats exampleToString '''' newMiningService ''24h'' 1000 (Inl (HttpError 503)) 1200))
          ''24h'' 2000 (Inr examplePayload) 2300)
   \<and> emitted (getMiningStats exampleToString ''''
          (service (getMiningStats exampleToString '''' newMiningService ''24h'' 1000 (Inl (HttpError 503)) 1200))
          ''24h'' 2000 (Inr examplePayload) 2300) = emptyStats ''''"
  by (simp add: getMiningStats_def cachedMiningStats_def fetchMiningStats_def newMiningService_def Let_def)

end
